theory Spec2Isabelle
  imports Complex_Main "HOL-Library.Word"
begin

unbundle bit_operations_syntax

section \<open>Conventions of the embedding\<close>

text \<open>
  The engine is TypeScript that computes on JavaScript numbers.  A finite number is
  modelled as a mathematical \<^typ>\<open>real\<close> (no rounding); an array of numbers is a
  \<^typ>\<open>real list\<close>.  Where the code can produce \<open>NaN\<close> by reading outside an array
  (\<open>undefined\<close>) or by dividing zero by zero, the value is a \<^typ>\<open>real option\<close> and
  \<open>None\<close> stands for \<open>NaN\<close>.  An exception is a value \<open>Inl e\<close> of a sum type.
  Lengths and sample counts requested by a caller are integers (\<^typ>\<open>int\<close>).
\<close>

datatype error = RangeError

section \<open>Resamplers\<close>

text \<open>Reading \<open>ys[i]\<close>: \<open>undefined\<close> outside the array.\<close>

definition js_nth :: "real list \<Rightarrow> int \<Rightarrow> real option" where
  "js_nth ys i = (if 0 \<le> i \<and> i < int (length ys) then Some (ys ! nat i) else None)"

text \<open>\<open>ys[i0] * (1 - w) + ys[i1] * w\<close>: \<open>NaN\<close> as soon as one read is \<open>undefined\<close>.\<close>

definition lerp_read :: "real list \<Rightarrow> int \<Rightarrow> int \<Rightarrow> real \<Rightarrow> real option" where
  "lerp_read ys i0 i1 w =
     (case js_nth ys i0 of
        None \<Rightarrow> None
      | Some a \<Rightarrow> (case js_nth ys i1 of None \<Rightarrow> None | Some b \<Rightarrow> Some (a * (1 - w) + b * w)))"

text \<open>
  \<open>resampleToLength(xs, ys, targetLen)\<close> of the fetal module (NotFound.tsx, 438--452).
  \<open>new Array(targetLen)\<close> throws a \<open>RangeError\<close> for a negative length.  When
  \<open>tMax = tMin\<close> the quotient \<open>u\<close> is \<open>0/0\<close>.
\<close>

definition resampleToLength :: "real list \<Rightarrow> real list \<Rightarrow> int \<Rightarrow> error + real option list" where
  "resampleToLength xs ys targetLen =
     (if int (length ys) = targetLen then Inr (map Some ys)
      else if targetLen < 0 then Inl RangeError
      else Inr (map (\<lambda>i.
        case js_nth xs 0 of
          None \<Rightarrow> None
        | Some tMin \<Rightarrow>
           (case js_nth xs (int (length xs) - 1) of
              None \<Rightarrow> None
            | Some tMax \<Rightarrow>
               (let t = tMin + ((tMax - tMin) * real_of_int i) / real_of_int (max 1 (targetLen - 1))
                in if tMax - tMin = 0 then None
                   else
                     (let u = (t - tMin) / (tMax - tMin);
                          idx = u * real_of_int (int (length ys) - 1);
                          i0 = \<lfloor>idx\<rfloor>;
                          i1 = min (int (length ys) - 1) (i0 + 1);
                          w = idx - real_of_int i0
                      in lerp_read ys i0 i1 w))))
        [0 ..< nat targetLen]))"

text \<open>\<open>resampleToLength(t, y, targetLength)\<close> of the adult-heart module (pcg.ts, 487--507).\<close>

definition pcg_resampleToLength :: "real list \<Rightarrow> real list \<Rightarrow> int \<Rightarrow> real option list" where
  "pcg_resampleToLength t y targetLength =
     (if int (length y) = targetLength then map Some y
      else if targetLength \<le> 0 then []
      else map (\<lambda>i.
        let n = int (length y) - 1;
            idx = (real_of_int i * real_of_int n) / real_of_int (max 1 (targetLength - 1));
            i0 = \<lfloor>idx\<rfloor>;
            i1 = min n (i0 + 1);
            w = idx - real_of_int i0
        in lerp_read y i0 i1 w)
        [0 ..< nat targetLength])"

text \<open>\<open>resampleTo(y, count)\<close> of the lung module (NotFound.tsx, 896--907).\<close>

definition resampleTo :: "real list \<Rightarrow> int \<Rightarrow> error + real option list" where
  "resampleTo y count =
     (if int (length y) = count then Inr (map Some y)
      else if count < 0 then Inl RangeError
      else Inr (map (\<lambda>i.
        let n = int (length y) - 1;
            idx = (real_of_int i * real_of_int n) / real_of_int (max 1 (count - 1));
            i0 = \<lfloor>idx\<rfloor>;
            i1 = min n (i0 + 1);
            w = idx - real_of_int i0
        in lerp_read y i0 i1 w)
        [0 ..< nat count]))"

section \<open>Digital filters\<close>

text \<open>
  The one-pole recursion shared by every low-pass stage: the output array is created
  filled with zeros, the loop starts at index 1, so \<open>y[0] = 0\<close> and
  \<open>y[i] = a * y[i-1] + (1 - a) * x[i]\<close> from then on.
\<close>

fun onepole_run :: "real \<Rightarrow> real \<Rightarrow> real list \<Rightarrow> real list" where
  "onepole_run a prev [] = []"
| "onepole_run a prev (v # vs) = (let yi = a * prev + (1 - a) * v in yi # onepole_run a yi vs)"

definition onepole_stage :: "real \<Rightarrow> real list \<Rightarrow> real list" where
  "onepole_stage a x = (case x of [] \<Rightarrow> [] | x0 # rest \<Rightarrow> 0 # onepole_run a 0 rest)"




text \<open>\<open>onepoleLP\<close>, \<open>onepoleHP\<close>, \<open>bandpassSafe\<close> of the lung module (NotFound.tsx, 499--520).
  A loop \<open>for (k = 0; k < order / 2; k++)\<close> runs \<open>\<lceil>order / 2\<rceil>\<close> times.\<close>

definition onepoleLP :: "real list \<Rightarrow> real \<Rightarrow> real \<Rightarrow> real list" where
  "onepoleLP x fc fs =
     (if fc \<le> 0 then x else onepole_stage (exp ((- 2 * pi * fc) / fs)) x)"

definition onepoleHP :: "real list \<Rightarrow> real \<Rightarrow> real \<Rightarrow> real list" where
  "onepoleHP x fc fs =
     (if fc \<le> 0 then x else map2 (\<lambda>xi li. xi - li) x (onepoleLP x fc fs))"

definition bandpassSafe :: "real list \<Rightarrow> real \<Rightarrow> real \<Rightarrow> real \<Rightarrow> nat \<Rightarrow> real list" where
  "bandpassSafe x fs lo hi order =
     (let hiClamped = min hi (0.49 * fs);
          y = ((\<lambda>y. onepoleLP y hiClamped fs) ^^ ((order + 1) div 2)) x;
          y = ((\<lambda>y. onepoleHP y lo fs) ^^ ((order + 1) div 2)) y
      in y)"

text \<open>\<open>bandpassFilter\<close>, \<open>lowpassFilter\<close>, \<open>resonator\<close> of the adult-heart module
  (pcg.ts, 28--104).  These have no guard on the cut-off: it is clamped to \<open>fs / 2 - 1\<close>.\<close>

definition pcg_highpass_stage :: "real \<Rightarrow> real list \<Rightarrow> real list" where
  "pcg_highpass_stage a y = map2 (\<lambda>yi li. yi - li) y (onepole_stage a y)"

definition bandpassFilter :: "real list \<Rightarrow> real \<Rightarrow> real \<Rightarrow> real \<Rightarrow> nat \<Rightarrow> real list" where
  "bandpassFilter x fs low high order =
     (let lowClamped = min low (fs / 2 - 1);
          highClamped = min high (fs / 2 - 1);
          y = (onepole_stage (exp ((- 2 * pi * highClamped) / fs)) ^^ ((order + 1) div 2)) x;
          y = (pcg_highpass_stage (exp ((- 2 * pi * lowClamped) / fs)) ^^ ((order + 1) div 2)) y
      in y)"

definition lowpassFilter :: "real list \<Rightarrow> real \<Rightarrow> real \<Rightarrow> nat \<Rightarrow> real list" where
  "lowpassFilter x fs cutoff order =
     (let cutoffClamped = min cutoff (fs / 2 - 1)
      in (onepole_stage (exp ((- 2 * pi * cutoffClamped) / fs)) ^^ order) x)"

fun resonator_run :: "real \<Rightarrow> real \<Rightarrow> real \<Rightarrow> real option \<Rightarrow> real option \<Rightarrow> real list \<Rightarrow> real list" where
  "resonator_run b0 a1 a2 p1 p2 [] = []"
| "resonator_run b0 a1 a2 p1 p2 (v # vs) =
     (let yi = b0 * v + (case p1 of None \<Rightarrow> 0 | Some q \<Rightarrow> a1 * q)
                      + (case p2 of None \<Rightarrow> 0 | Some q \<Rightarrow> a2 * q)
      in yi # resonator_run b0 a1 a2 (Some yi) p1 vs)"

definition resonator :: "real list \<Rightarrow> real \<Rightarrow> real \<Rightarrow> real \<Rightarrow> real list" where
  "resonator x fs f0 zeta =
     (let w0 = (2 * pi * f0) / fs;
          a1 = - 2 * exp (- zeta * w0) * cos w0;
          a2 = exp (- 2 * zeta * w0);
          b0 = 1 - exp (- zeta * w0)
      in resonator_run b0 a1 a2 None None x)"

section \<open>Random sources\<close>

text \<open>
  A random source is either the seeded generator the three modules implement (Mulberry32
  on 32-bit integers: \<open>seededRandom\<close> in pcg.ts, \<open>rngFactory\<close> and \<open>rng\<close> in
  NotFound.tsx) or the platform's \<open>Math.random\<close>.  The platform source is modelled by
  the sequence of values it is going to return, each in \<open>[0, 1)\<close>, and the position
  reached in it.  \<open>rand\<close> is one call of the source: the value drawn and the source
  after the call.
\<close>

datatype random_source = Mulberry32 "32 word" | MathRandom "nat \<Rightarrow> real" nat

definition mulberry32_out :: "32 word \<Rightarrow> 32 word" where
  "mulberry32_out s =
     (let t = (s XOR drop_bit 15 s) * (1 OR s);
          t = (t + (t XOR drop_bit 7 t) * (61 OR t)) XOR t
      in t XOR drop_bit 14 t)"

fun rand :: "random_source \<Rightarrow> real \<times> random_source" where
  "rand (Mulberry32 s) =
     (let s' = s + 0x6D2B79F5
      in (real (unat (mulberry32_out s')) / 4294967296, Mulberry32 s'))"
| "rand (MathRandom f k) = (f k, MathRandom f (Suc k))"


text \<open>\<open>seededRandom(seed)\<close> (pcg.ts, 8--16): the state starts at \<open>seed >>> 0\<close>.\<close>

definition seededRandom :: "int \<Rightarrow> random_source" where
  "seededRandom seed = Mulberry32 (word_of_int seed)"


definition rng_seeded :: "int \<Rightarrow> random_source" where
  "rng_seeded n = Mulberry32 (if (word_of_int n :: 32 word) = 0 then 1 else word_of_int n)"




text \<open>
  \<open>gaussian(rand)\<close> (pcg.ts, 18--24; NotFound.tsx, 291--297 and 486--491): Box--Muller with
  two rejection loops \<open>while (u === 0) u = rand()\<close>.  A loop that never leaves is the
  value \<open>None\<close>.
\<close>

partial_function (option) draw_nonzero :: "random_source \<Rightarrow> (real \<times> random_source) option" where
  "draw_nonzero r = (case rand r of (u, r') \<Rightarrow> if u = 0 then draw_nonzero r' else Some (u, r'))"

definition gaussian :: "random_source \<Rightarrow> (real \<times> random_source) option" where
  "gaussian r =
     (case draw_nonzero r of
        None \<Rightarrow> None
      | Some (u, r1) \<Rightarrow>
         (case draw_nonzero r1 of
            None \<Rightarrow> None
          | Some (v, r2) \<Rightarrow> Some (sqrt (- 2 * ln u) * cos (2 * pi * v), r2)))"

text \<open>\<open>n\<close> successive calls of \<open>gaussian\<close>, filling an array from index 0 upwards.\<close>

fun gaussians :: "nat \<Rightarrow> random_source \<Rightarrow> (real list \<times> random_source) option" where
  "gaussians 0 r = Some ([], r)"
| "gaussians (Suc n) r =
     (case gaussian r of
        None \<Rightarrow> None
      | Some (g, r1) \<Rightarrow>
         (case gaussians n r1 of None \<Rightarrow> None | Some (gs, r2) \<Rightarrow> Some (g # gs, r2)))"

section \<open>Noise and the signal-to-noise compositors\<close>

text \<open>\<open>x.reduce((s, v) => s + v * v, 0) / Math.max(1, x.length)\<close>.\<close>

definition meanSquare :: "real list \<Rightarrow> real" where
  "meanSquare x = sum_list (map (\<lambda>v. v * v) x) / real (max 1 (length x))"

text \<open>\<open>Math.max(...xs.map(Math.abs), floor)\<close>.\<close>

definition peakAbs :: "real list \<Rightarrow> real \<Rightarrow> real" where
  "peakAbs xs bound = foldr (\<lambda>v m. max \<bar>v\<bar> m) xs bound"

text \<open>
  \<open>addNoiseSNR(x, snrDb, fs, rng)\<close> of the adult-heart module (pcg.ts, 120--145).
  \<open>pcg_noise_track\<close> is the array \<open>filtered[i] * Math.sqrt(pNoise)\<close> that is added to the
  signal, computed from the low-passed noise.
\<close>

definition pcg_noise_track :: "real list \<Rightarrow> real \<Rightarrow> real list \<Rightarrow> real list" where
  "pcg_noise_track x snrDb filtered0 =
     (let pSig = meanSquare x;
          snrLin = 10 powr (snrDb / 10);
          pNoise = pSig / snrLin;
          noisePower = sqrt (meanSquare filtered0 + (1 / 10 ^ 8));
          filtered = map (\<lambda>v. v / (noisePower + (1 / 10 ^ 8))) filtered0
      in map (\<lambda>v. v * sqrt pNoise) filtered)"

definition pcg_addNoiseSNR ::
  "real list \<Rightarrow> real \<Rightarrow> real \<Rightarrow> random_source \<Rightarrow> (real list \<times> random_source) option" where
  "pcg_addNoiseSNR x snrDb fs r =
     (case gaussians (length x) r of
        None \<Rightarrow> None
      | Some (noise, r') \<Rightarrow>
          Some (map2 (\<lambda>xi ni. xi + ni) x (pcg_noise_track x snrDb (lowpassFilter noise fs 100 4)), r'))"

text \<open>
  The lung module (NotFound.tsx, 639--678).  Its helper named \<open>rms\<close> (line 678) returns
  the mean square, without a square root.
\<close>

definition lung_rms :: "real list \<Rightarrow> real" where
  "lung_rms arr = sum_list (map (\<lambda>v. v * v) arr) / real (max 1 (length arr))"

text \<open>One row of \<open>pinkNoise\<close>: the running sums \<open>v += rand() - 0.5\<close>.\<close>

fun pink_walk :: "nat \<Rightarrow> real \<Rightarrow> random_source \<Rightarrow> real list \<times> random_source" where
  "pink_walk 0 v r = ([], r)"
| "pink_walk (Suc n) v r =
     (case rand r of (u, r1) \<Rightarrow>
        (let v' = v + (u - 0.5)
         in case pink_walk n v' r1 of (vs, r2) \<Rightarrow> (v' # vs, r2)))"

fun pink_rows :: "nat list \<Rightarrow> nat \<Rightarrow> real list \<Rightarrow> random_source \<Rightarrow> real list \<times> random_source" where
  "pink_rows [] N acc r = (acc, r)"
| "pink_rows (row # rows) N acc r =
     (case pink_walk N 0 r of (vs, r1) \<Rightarrow>
        pink_rows rows N (map2 (\<lambda>a v. a + (1 / 2 ^ row) * v) acc vs) r1)"

definition pinkNoise :: "nat \<Rightarrow> random_source \<Rightarrow> real list \<times> random_source" where
  "pinkNoise N r =
     (case pink_rows [0 ..< 16] N (replicate N 0) r of (acc, r1) \<Rightarrow>
        (let maxAbs = peakAbs acc (1 / 10 ^ 9) in (map (\<lambda>x. x / maxAbs) acc, r1)))"

text \<open>\<open>makeEnvNoise(fs, duration, seed, mix, band)\<close>; the seed is a number, so \<open>rng(seed)\<close>
  is the seeded generator.\<close>

definition makeEnvNoise :: "real \<Rightarrow> real \<Rightarrow> int \<Rightarrow> real \<times> real \<Rightarrow> real \<times> real \<Rightarrow> real list option" where
  "makeEnvNoise fs duration seed mix band =
     (let r = rng_seeded seed;
          N = nat (max 1 (round (duration * fs)))
      in case pinkNoise N r of (pn, r1) \<Rightarrow>
          (case gaussians N r1 of
             None \<Rightarrow> None
           | Some (w, r2) \<Rightarrow>
              (let nb = bandpassSafe w fs (fst band) (snd band) 4;
                   maxNb = peakAbs nb (1 / 10 ^ 9);
                   nb = map (\<lambda>x. x / maxNb) nb;
                   out = map2 (\<lambda>p b. fst mix * p + snd mix * b) pn nb;
                   maxAbs = peakAbs out (1 / 10 ^ 9)
               in Some (map (\<lambda>x. x / maxAbs) out))))"

text \<open>
  \<open>addNoiseSNR(sig, fs, snrDb, seed, mix, band)\<close> of the lung module (667--677), in two
  steps: the scale factor for the noise track, and the mix with the final peak
  normalisation to 0.95.
\<close>

definition addNoiseSNR_scale :: "real list \<Rightarrow> real \<Rightarrow> real list \<Rightarrow> real" where
  "addNoiseSNR_scale sig snrDb noise =
     (let sigPower = lung_rms sig;
          noisePower = lung_rms noise
      in sqrt ((sigPower / 10 powr (snrDb / 10)) / (if noisePower = 0 then 1 else noisePower)))"

definition addNoiseSNR_mix :: "real list \<Rightarrow> real \<Rightarrow> real list \<Rightarrow> real list" where
  "addNoiseSNR_mix sig snrDb noise =
     (let scale = addNoiseSNR_scale sig snrDb noise;
          y = map2 (\<lambda>s n. s + scale * n) sig noise;
          peak = peakAbs y (1 / 10 ^ 9)
      in map (\<lambda>v. (0.95 * v) / peak) y)"

definition addNoiseSNR ::
  "real list \<Rightarrow> real \<Rightarrow> real \<Rightarrow> int \<Rightarrow> real \<times> real \<Rightarrow> real \<times> real \<Rightarrow> real list option" where
  "addNoiseSNR sig fs snrDb seed mix band =
     (case makeEnvNoise fs (real (length sig) / fs) seed mix band of
        None \<Rightarrow> None
      | Some noise \<Rightarrow> Some (addNoiseSNR_mix sig snrDb noise))"

section \<open>The adult-heart module\<close>

text \<open>
  \<open>PCGParams\<close> and \<open>defaultParams\<close> (pcg.ts, 199--208 and 447--456).  The optional string
  \<open>abnormal\<close> selects one of four injections; every other value, and its absence,
  leaves the beat as it is.
\<close>

record PCGParams =
  width_s1 :: real
  width_s2 :: real
  amp_main :: real
  amp_sub :: real
  t_s1_ratio :: real
  t_s2_ratio :: real
  f0 :: real
  zeta :: real

definition defaultParams :: PCGParams where
  "defaultParams =
     \<lparr>width_s1 = 0.045, width_s2 = 0.035, amp_main = 0.8, amp_sub = 0.4,
      t_s1_ratio = 0.12, t_s2_ratio = 0.45, f0 = 120, zeta = 0.4\<rparr>"

datatype abnormal = NoAbnormal | SystolicMurmur | DiastolicMurmur | S2Split | S3

text \<open>A loop that fills an array entry by entry from draws of the random source.\<close>

fun draw_map ::
  "(nat \<Rightarrow> random_source \<Rightarrow> (real \<times> random_source) option) \<Rightarrow> nat list \<Rightarrow> random_source
   \<Rightarrow> (real list \<times> random_source) option" where
  "draw_map f [] r = Some ([], r)"
| "draw_map f (i # is) r =
     (case f i r of
        None \<Rightarrow> None
      | Some (v, r1) \<Rightarrow>
         (case draw_map f is r1 of None \<Rightarrow> None | Some (vs, r2) \<Rightarrow> Some (v # vs, r2)))"

text \<open>\<open>envelopedBurst\<close> and \<open>valveEvent\<close> (149--195).  They are called with a length that
  has already served to allocate an array, hence a natural number.\<close>

definition envelopedBurst ::
  "nat \<Rightarrow> real \<Rightarrow> real \<Rightarrow> real \<Rightarrow> real \<Rightarrow> random_source \<Rightarrow> (real list \<times> random_source) option" where
  "envelopedBurst n fs center width amp r =
     (case gaussian r of
        None \<Rightarrow> None
      | Some (g0, r1) \<Rightarrow>
         (let f0' = 60 + 40 * g0
          in draw_map (\<lambda>i r.
               case gaussian r of
                 None \<Rightarrow> None
               | Some (g1, r2) \<Rightarrow>
                  (case gaussian r2 of
                     None \<Rightarrow> None
                   | Some (g2, r3) \<Rightarrow>
                      (let ti = real i / fs;
                           diff = (ti - center) / width;
                           env = exp (- 0.5 * diff * diff);
                           phase = (2 * pi * f0' * ti) + g1 * 0.2;
                           sine = sin phase;
                           noise = g2 * 0.3
                       in Some (amp * env * (sine + noise), r3))))
             [0 ..< n] r1))"

definition valveEvent ::
  "nat \<Rightarrow> real \<Rightarrow> real \<Rightarrow> real \<Rightarrow> real \<Rightarrow> real \<Rightarrow> real \<Rightarrow> random_source
   \<Rightarrow> (real list \<times> random_source) option" where
  "valveEvent n fs center width ampMain ampSub delayMs r =
     (let delay = delayMs / 1000
      in case envelopedBurst n fs center width ampMain r of
           None \<Rightarrow> None
         | Some (main, r1) \<Rightarrow>
            (case envelopedBurst n fs (center + delay) width ampSub r1 of
               None \<Rightarrow> None
             | Some (sub, r2) \<Rightarrow> Some (map2 (\<lambda>a b. a + b) main sub, r2)))"

text \<open>\<open>arr[i] = v\<close> at an integer index below the length: inside the array the entry is
  set, at a negative index the array is left as it is.\<close>

definition set_at :: "real list \<Rightarrow> int \<Rightarrow> real \<Rightarrow> real list" where
  "set_at arr i v = (if 0 \<le> i \<and> i < int (length arr) then arr[nat i := v] else arr)"

text \<open>The four injections (274--375).  A loop \<open>for (i = 0; i < len && start + i < n; i++)\<close>
  runs \<open>min len (n - start)\<close> times, and draws once per iteration.\<close>

definition addSystolicMurmur ::
  "nat \<Rightarrow> real \<Rightarrow> real \<Rightarrow> real \<Rightarrow> random_source \<Rightarrow> (real list \<times> random_source) option" where
  "addSystolicMurmur n fs tS1 tS2 r =
     (let startIdx = \<lfloor>tS1 * fs\<rfloor>;
          endIdx = \<lfloor>tS2 * fs\<rfloor>
      in case (if endIdx > startIdx
               then draw_map (\<lambda>i r.
                      case gaussian r of
                        None \<Rightarrow> None
                      | Some (noise, r1) \<Rightarrow>
                         (let t = real i / fs;
                              env = exp (- 3 * (t / (real_of_int (endIdx - startIdx) / fs)))
                          in Some (0.25 * env * noise, r1)))
                    [0 ..< nat (min (endIdx - startIdx) (int n - startIdx))] r
               else Some ([], r)) of
           None \<Rightarrow> None
         | Some (vals, r1) \<Rightarrow>
             Some (bandpassFilter
                     (fold (\<lambda>i m. set_at m (startIdx + int i) (vals ! i)) [0 ..< length vals]
                        (replicate n 0))
                     fs 100 400 4, r1))"

definition addDiastolicMurmur ::
  "nat \<Rightarrow> real \<Rightarrow> real \<Rightarrow> real \<Rightarrow> random_source \<Rightarrow> (real list \<times> random_source) option" where
  "addDiastolicMurmur n fs tS2 nextTS1 r =
     (let startIdx = \<lfloor>tS2 * fs\<rfloor>;
          endIdx = min (int n) \<lfloor>nextTS1 * fs\<rfloor>
      in case (if endIdx > startIdx
               then draw_map (\<lambda>i r.
                      case gaussian r of
                        None \<Rightarrow> None
                      | Some (noise, r1) \<Rightarrow>
                         (let t = real i / fs;
                              env = sin ((pi * t) / (real_of_int (endIdx - startIdx) / fs))
                          in Some (0.2 * env * noise, r1)))
                    [0 ..< nat (min (endIdx - startIdx) (int n - startIdx))] r
               else Some ([], r)) of
           None \<Rightarrow> None
         | Some (vals, r1) \<Rightarrow>
             Some (bandpassFilter
                     (fold (\<lambda>i m. set_at m (startIdx + int i) (vals ! i)) [0 ..< length vals]
                        (replicate n 0))
                     fs 80 300 4, r1))"

definition addS2Split ::
  "nat \<Rightarrow> real \<Rightarrow> real \<Rightarrow> real list \<Rightarrow> real \<Rightarrow> random_source \<Rightarrow> (real list \<times> random_source) option" where
  "addS2Split n fs tS2 s2Original splitMs r =
     (let result = take n s2Original
      in case valveEvent n fs (tS2 + splitMs / 1000) 0.03 0.4 0.2 18 r of
           None \<Rightarrow> None
         | Some (s2Split, r1) \<Rightarrow> Some (map2 (\<lambda>a b. a + 0.6 * b) result s2Split, r1))"

definition addS3Sound ::
  "nat \<Rightarrow> real \<Rightarrow> real \<Rightarrow> random_source \<Rightarrow> (real list \<times> random_source) option" where
  "addS3Sound n fs tS2 r =
     (let s3 = replicate n 0;
          s3Time = tS2 + 0.15;
          idx = \<lfloor>s3Time * fs\<rfloor>
      in case (if idx < int n
               then (case envelopedBurst (nat (min 200 (int n - idx))) fs 0.05 0.04 0.3 r of
                       None \<Rightarrow> None
                     | Some (s3Burst, r1) \<Rightarrow>
                         Some (fold (\<lambda>i m. set_at m (idx + int i) (s3Burst ! i))
                                 [0 ..< length s3Burst] s3, r1))
               else Some (s3, r)) of
           None \<Rightarrow> None
         | Some (s3, r1) \<Rightarrow> Some (bandpassFilter s3 fs 20 150 4, r1))"

text \<open>\<open>simulateSingleBeat\<close> (210--270).  Its first array of \<open>n = floor(duration * fs)\<close>
  entries is allocated before any draw: a negative \<open>n\<close> throws a \<open>RangeError\<close>.\<close>

record single_beat =
  beat :: "real list"
  s1Time :: real
  s2Time :: real

definition simulateSingleBeat ::
  "real \<Rightarrow> real \<Rightarrow> PCGParams \<Rightarrow> abnormal \<Rightarrow> random_source
   \<Rightarrow> (error + single_beat \<times> random_source) option" where
  "simulateSingleBeat fs duration params abn r =
     (let ni = \<lfloor>duration * fs\<rfloor>
      in if ni < 0 then Some (Inl RangeError)
         else
          (let n = nat ni;
               tS1 = t_s1_ratio params * duration;
               tS2 = t_s2_ratio params * duration
           in case valveEvent n fs tS1 (width_s1 params) (amp_main params * 2.0)
                     (amp_sub params * 2.0) 12 r of
                None \<Rightarrow> None
              | Some (s1, r1) \<Rightarrow>
                 (case valveEvent n fs tS2 (width_s2 params) (amp_main params * 1.6)
                         (amp_sub params * 1.6) 18 r1 of
                    None \<Rightarrow> None
                  | Some (s2, r2) \<Rightarrow>
                     (let beat0 = map2 (\<lambda>a b. a + b) s1 s2
                      in case (case abn of
                                 SystolicMurmur \<Rightarrow>
                                   (case addSystolicMurmur n fs tS1 tS2 r2 of
                                      None \<Rightarrow> None
                                    | Some (murmur, r3) \<Rightarrow>
                                        Some (map2 (\<lambda>a b. a + b) beat0 murmur, r3))
                               | DiastolicMurmur \<Rightarrow>
                                   (let nextTS1 = duration + t_s1_ratio params * duration
                                    in case addDiastolicMurmur n fs tS2 nextTS1 r2 of
                                         None \<Rightarrow> None
                                       | Some (murmur, r3) \<Rightarrow>
                                           Some (map2 (\<lambda>a b. a + b) beat0 murmur, r3))
                               | S2Split \<Rightarrow>
                                   (case addS2Split n fs tS2 s2 60 r2 of
                                      None \<Rightarrow> None
                                    | Some (s2Split, r3) \<Rightarrow>
                                        Some (map2 (\<lambda>a b. a + b) s1 s2Split, r3))
                               | S3 \<Rightarrow>
                                   (case addS3Sound n fs tS2 r2 of
                                      None \<Rightarrow> None
                                    | Some (s3, r3) \<Rightarrow>
                                        Some (map2 (\<lambda>a b. a + b) beat0 s3, r3))
                               | NoAbnormal \<Rightarrow> Some (beat0, r2)) of
                           None \<Rightarrow> None
                         | Some (beat1, r4) \<Rightarrow>
                            (let beat2 = resonator beat1 fs (f0 params * 0.8) (zeta params * 0.6);
                                 beat3 = lowpassFilter beat2 fs 150 4
                             in Some (Inr (\<lparr>beat = beat3, s1Time = tS1, s2Time = tS2\<rparr>, r4)))))))"

text \<open>
  The treatment of one beat after the noise has been added (\<open>simulateMultibeat\<close>,
  403--424): a peak below \<open>1e-6\<close> multiplies every sample by 100, then the beat is scaled
  to a peak of 0.95.  And the treatment of the concatenated signal (433--440): when it
  is empty or its peak is below 0.01, a warning is logged and every sample is multiplied
  by 10.
\<close>

definition amplify_weak_beat :: "real list \<Rightarrow> real list" where
  "amplify_weak_beat processed =
     (let peak = peakAbs processed (1 / 10 ^ 8)
      in if peak < 1 / 10 ^ 6 then map (\<lambda>v. v * 100) processed else processed)"

definition normalize_beat :: "real list \<Rightarrow> real list" where
  "normalize_beat processed =
     (let finalPeak = peakAbs processed (1 / 10 ^ 8)
      in map (\<lambda>v. (0.95 * v) / finalPeak) processed)"

definition amplify_weak_signal :: "real list \<Rightarrow> real list" where
  "amplify_weak_signal pcg =
     (if length pcg = 0 \<or> peakAbs pcg 0 < 0.01 then map (\<lambda>v. v * 10) pcg else pcg)"

text \<open>\<open>simulateMultibeat\<close> (379--443); the loop \<open>for (b = 0; b < numBeats; b++)\<close>.\<close>

record multibeat_out =
  pcg :: "real list"
  s1Times :: "real list"
  s2Times :: "real list"

fun multibeat_loop ::
  "nat list \<Rightarrow> real \<Rightarrow> real \<Rightarrow> PCGParams \<Rightarrow> abnormal \<Rightarrow> real
   \<Rightarrow> real list list \<times> real list \<times> real list \<Rightarrow> random_source
   \<Rightarrow> (error + (real list list \<times> real list \<times> real list) \<times> random_source) option" where
  "multibeat_loop [] fs beatLengthSec params abn snrDb acc r = Some (Inr (acc, r))"
| "multibeat_loop (b # bs) fs beatLengthSec params abn snrDb acc r =
     (case simulateSingleBeat fs beatLengthSec params abn r of
        None \<Rightarrow> None
      | Some (Inl e) \<Rightarrow> Some (Inl e)
      | Some (Inr (sb, r1)) \<Rightarrow>
         (case pcg_addNoiseSNR (beat sb) snrDb fs r1 of
            None \<Rightarrow> None
          | Some (processed, r2) \<Rightarrow>
             (let processed = amplify_weak_beat processed;
                  processed = normalize_beat processed
              in case acc of (beats, s1s, s2s) \<Rightarrow>
                   multibeat_loop bs fs beatLengthSec params abn snrDb
                     (beats @ [processed],
                      s1s @ [s1Time sb + real b * beatLengthSec],
                      s2s @ [s2Time sb + real b * beatLengthSec]) r2)))"

definition simulateMultibeat ::
  "int \<Rightarrow> real \<Rightarrow> real \<Rightarrow> PCGParams \<Rightarrow> abnormal \<Rightarrow> real \<Rightarrow> random_source
   \<Rightarrow> (error + multibeat_out \<times> random_source) option" where
  "simulateMultibeat numBeats fs beatLengthSec params abn snrDb r =
     (case multibeat_loop [0 ..< nat numBeats] fs beatLengthSec params abn snrDb ([], [], []) r of
        None \<Rightarrow> None
      | Some (Inl e) \<Rightarrow> Some (Inl e)
      | Some (Inr ((beats, s1s, s2s), r1)) \<Rightarrow>
          Some (Inr (\<lparr>pcg = amplify_weak_signal (concat beats), s1Times = s1s, s2Times = s2s\<rparr>, r1)))"

text \<open>\<open>simulateHeartDataset(opts)\<close> (460--485) with \<open>cycles\<close>, \<open>fs\<close> and \<open>abnormal\<close> resolved;
  it returns \<open>{t, y}\<close>.\<close>

definition simulateHeartDataset :: "int \<Rightarrow> real \<Rightarrow> abnormal \<Rightarrow> (error + real list \<times> real list) option" where
  "simulateHeartDataset cycles fs abn =
     (let beatLengthSec = 1.2;
          r = seededRandom 2025
      in case simulateMultibeat cycles fs beatLengthSec defaultParams abn 6 r of
           None \<Rightarrow> None
         | Some (Inl e) \<Rightarrow> Some (Inl e)
         | Some (Inr (out, r1)) \<Rightarrow>
             Some (Inr (map (\<lambda>i. real i / fs) [0 ..< length (pcg out)], pcg out)))"

section \<open>The fetal module: kernels and event generators\<close>

text \<open>
  In this part a sample rate \<open>fs\<close> is positive: a quotient by \<open>fs = 0\<close> is \<open>Infinity\<close> or
  \<open>NaN\<close> in JavaScript, which the real numbers of the model do not represent.  Array
  lengths handed over by a caller that has just allocated an array of that length are
  natural numbers.
\<close>


text \<open>\<open>linspace\<close>, \<open>sinc\<close>, \<open>generate_heart_sound\<close> (NotFound.tsx, 103--128); of the pair
  \<open>{t, signal}\<close> only \<open>signal\<close> is used by the callers and returned here.\<close>

definition linspace :: "real \<Rightarrow> real \<Rightarrow> nat \<Rightarrow> real list" where
  "linspace start end' n =
     (let step = (end' - start) / real_of_int (max 1 (int n - 1))
      in map (\<lambda>i. start + real i * step) [0 ..< n])"

definition sinc :: "real \<Rightarrow> real" where
  "sinc x = (if x = 0 then 1 else sin (pi * x) / (pi * x))"

definition generate_heart_sound :: "real \<Rightarrow> real \<Rightarrow> real \<Rightarrow> real \<Rightarrow> real list" where
  "generate_heart_sound center_freq duration fs amplitude =
     (let n = nat (max 1 \<lfloor>fs * duration\<rfloor>);
          t = linspace (- duration / 2) (duration / 2) n
      in map (\<lambda>ti. amplitude * sinc (2 * center_freq * ti)) t)"

text \<open>\<open>expo_conv_kernel\<close> (157--166): \<open>new Array(Nmax + 1)\<close> throws for a negative length.\<close>

definition expo_conv_kernel :: "real \<Rightarrow> real \<Rightarrow> real \<Rightarrow> real \<Rightarrow> real \<Rightarrow> error + real list" where
  "expo_conv_kernel r c fs beta A =
     (let t0 = r / c;
          N0 = round (t0 * fs);
          tau = 1 / beta;
          Nmax = round (real_of_int N0 + 5 * tau * fs)
      in if Nmax + 1 < 0 then Inl RangeError
         else Inr (map (\<lambda>i. if N0 \<le> int i
                              then A * exp (- real_of_int (int i - N0) * (beta / fs)) else 0)
                    [0 ..< nat (Nmax + 1)]))"

text \<open>\<open>convolve\<close> (427--435): \<open>out[i + j] += a[i] * b[j]\<close> in a double loop; the array of
  length \<open>n + m - 1\<close> cannot be allocated when both inputs are empty.\<close>

definition convolve :: "real list \<Rightarrow> real list \<Rightarrow> error + real list" where
  "convolve a b =
     (let n = length a; m = length b
      in if n + m = 0 then Inl RangeError
         else Inr (fold (\<lambda>i out.
                     fold (\<lambda>j out. out[i + j := out ! (i + j) + a ! i * b ! j]) [0 ..< m] out)
                   [0 ..< n] (replicate (n + m - 1) 0)))"














section \<open>The lung module: breath cycles\<close>














section \<open>Invariants used in the proofs\<close>






section \<open>Platform sources of the concrete runs\<close>



section \<open>Properties of the resamplers\<close>



text \<open>
  Claim C9.  Resampling a waveform of length \<open>L\<close> to the target length \<open>L\<close> returns the
  original values unchanged, in each of the three resamplers: the result is a copy, no
  sample is interpolated.
\<close>

theorem resample_identity:
  "resampleToLength xs ys (int (length ys)) = Inr (map Some ys)
   \<and> pcg_resampleToLength xs ys (int (length ys)) = map Some ys
   \<and> resampleTo ys (int (length ys)) = Inr (map Some ys)"
  by (simp add: resampleToLength_def pcg_resampleToLength_def resampleTo_def)

section \<open>Properties of the filters\<close>



















section \<open>Properties of the random sources\<close>











section \<open>Properties of the signal-to-noise compositors\<close>















section \<open>Properties of the event generators\<close>































text \<open>A seeded run of the arrival loop: with the seed 631835670 the second draw is
  exactly 0, so the second gap is 0.\<close>

lemma m1: "mulberry32_out 2463401483 = 2653427450"
  by code_simp
lemma m2: "mulberry32_out 1831565813 = 1144304738"
  by code_simp
lemma s1: "(631835670 :: 32 word) + 0x6D2B79F5 = 2463401483" by simp
lemma s2: "(2463401483 :: 32 word) + 0x6D2B79F5 = 0" by simp

lemma r1: "rand (Mulberry32 631835670) = (2653427450 / 4294967296, Mulberry32 2463401483)"
  by (simp add: Let_def m1)
lemma r2: "rand (Mulberry32 2463401483) = (0, Mulberry32 0)"
  by (simp add: Let_def mulberry32_out_def)
lemma r3: "rand (Mulberry32 0) = (1144304738 / 4294967296, Mulberry32 1831565813)"
  by (simp add: Let_def m2)


























section \<open>Properties of the envelopes\<close>























lemma gaussians_length:
  assumes "gaussians n r = Some (gs, r')"
  shows "length gs = n"
  using assms
proof (induction n arbitrary: r gs)
  case 0
  then show ?case by simp
next
  case (Suc n)
  from Suc.prems(1) obtain g r1 gs1 where
    b: "gaussians n r1 = Some (gs1, r')" and c: "gs = g # gs1"
    by (auto split: option.splits prod.splits)
  show ?case using Suc.IH [OF b] c by simp
qed
















end
